theory Spec2Isabelle
  imports Complex_Main
begin

section \<open>Bank FD rates scraper: table extraction (app.py)\<close>

text \<open>
  A shallow embedding of \<^verbatim>\<open>src/app.py\<close>: the two table extractors
  \<^verbatim>\<open>extract_table_from_html\<close> (pandas) and \<^verbatim>\<open>extract_hdfc_table\<close>
  (BeautifulSoup), the view \<^verbatim>\<open>fetch_bank_data\<close> with the global cache
  \<^verbatim>\<open>fetched_data\<close>, and the batch view \<^verbatim>\<open>fetch_multiple_banks\<close>.

  The network and the two libraries are the environment of the program. What the code
  itself computes (indexing, header flattening, the row loop, padding and truncation,
  the cache update, the responses) is written out; what a library computes from a page
  is either written out where it is a small documented function (\<^verbatim>\<open>find_all\<close>,
  \<^verbatim>\<open>get_text(strip=True)\<close>, \<^verbatim>\<open>str.strip\<close>, \<^verbatim>\<open>dropna(how='all')\<close>,
  \<^verbatim>\<open>reset_index(drop=True)\<close>, \<^verbatim>\<open>to_dict('records')\<close>) or taken as a field of the
  environment record (\<^verbatim>\<open>requests.get\<close>, \<^verbatim>\<open>pandas.read_html\<close>).
\<close>

subsection \<open>Python strings\<close>

text \<open>
  \<^verbatim>\<open>str.isspace\<close> on the ASCII range: tab, line feed, vertical tab, form feed,
  carriage return, the four separators 0x1C..0x1F and the space.
\<close>

definition isspace :: "char \<Rightarrow> bool" where
  "isspace c = (c \<in> set [CHR 0x09, CHR 0x0A, CHR 0x0B, CHR 0x0C, CHR 0x0D,
                           CHR 0x1C, CHR 0x1D, CHR 0x1E, CHR 0x1F, CHR '' ''])"

definition lstrip :: "string \<Rightarrow> string" where
  "lstrip s = dropWhile isspace s"

definition rstrip :: "string \<Rightarrow> string" where
  "rstrip s = rev (dropWhile isspace (rev s))"

text \<open>\<^verbatim>\<open>s.strip()\<close>\<close>

definition strip :: "string \<Rightarrow> string" where
  "strip s = rstrip (lstrip s)"

text \<open>\<^verbatim>\<open>s.replace('\n', ' ')\<close>: every line feed becomes one space.\<close>

definition replace_nl :: "string \<Rightarrow> string" where
  "replace_nl s = map (\<lambda>c. if c = CHR 0x0A then CHR '' '' else c) s"

text \<open>\<^verbatim>\<open>' '.join(xs)\<close> for a sequence of strings.\<close>

fun join_space :: "string list \<Rightarrow> string" where
  "join_space [] = []"
| "join_space [x] = x"
| "join_space (x # y # ys) = x @ '' '' @ join_space (y # ys)"

subsection \<open>The BeautifulSoup tree\<close>

text \<open>
  A parsed page: text nodes and tags with their children, in document order. Tag names
  are lower case, as \<^verbatim>\<open>html.parser\<close> gives them. Attributes play no part in app.py,
  and neither do comments and the contents of scripts, which \<^verbatim>\<open>get_text\<close> leaves out.
\<close>

datatype node = NavigableString string | Tag string "node list"

text \<open>\<^verbatim>\<open>tag.descendants\<close>: every node below the tag, in document order.\<close>

fun descendants :: "node \<Rightarrow> node list" where
  "descendants (NavigableString s) = []"
| "descendants (Tag name children) = concat (map (\<lambda>c. c # descendants c) children)"

fun is_tag :: "string \<Rightarrow> node \<Rightarrow> bool" where
  "is_tag name (NavigableString s) = False"
| "is_tag name (Tag name' children) = (name' = name)"

text \<open>\<^verbatim>\<open>tag.find_all(name)\<close>: the descendants that are tags of that name.\<close>

definition find_all :: "string \<Rightarrow> node \<Rightarrow> node list" where
  "find_all name n = filter (is_tag name) (descendants n)"

fun node_strings :: "node \<Rightarrow> string list" where
  "node_strings (NavigableString s) = [s]"
| "node_strings (Tag name children) = []"

text \<open>
  \<^verbatim>\<open>tag.get_text(strip=True)\<close>: every text node below the tag is stripped, the empty
  ones are left out, and the rest is joined with the empty separator.
\<close>

definition get_text_strip :: "node \<Rightarrow> string" where
  "get_text_strip n =
     concat (filter (\<lambda>s. s \<noteq> []) (map strip (concat (map node_strings (descendants n)))))"

subsection \<open>The row loop of \<^verbatim>\<open>extract_hdfc_table\<close> (lines 111 to 127)\<close>

text \<open>Line 112: \<^verbatim>\<open>headers = [th.get_text(strip=True) for th in table.find_all('th')]\<close>\<close>

definition table_headers :: "node \<Rightarrow> string list" where
  "table_headers table = map get_text_strip (find_all ''th'' table)"

text \<open>Lines 118 and 119: the texts of the \<^verbatim>\<open>td\<close> cells of one \<^verbatim>\<open>tr\<close>.\<close>

definition row_cells :: "node \<Rightarrow> string list" where
  "row_cells tr = map (\<lambda>cell. replace_nl (get_text_strip cell)) (find_all ''td'' tr)"

text \<open>
  Lines 122 to 125, "Ensure consistent column count":
  \<^verbatim>\<open>
  if len(row) < num_columns:
      row.extend([''] * (num_columns - len(row)))
  elif len(row) > num_columns:
      row = row[:num_columns]
  \<close>
\<close>

definition ensure_column_count :: "nat \<Rightarrow> string list \<Rightarrow> string list" where
  "ensure_column_count num_columns row =
     (if length row < num_columns then row @ replicate (num_columns - length row) []
      else if length row > num_columns then take num_columns row
      else row)"

text \<open>
  Lines 116 to 127: the loop over the rows, appending one row per \<^verbatim>\<open>tr\<close> to
  the accumulator \<^verbatim>\<open>rows\<close>.
\<close>

fun rows_loop :: "nat \<Rightarrow> node list \<Rightarrow> string list list \<Rightarrow> string list list" where
  "rows_loop num_columns [] rows = rows"
| "rows_loop num_columns (tr # trs) rows =
     rows_loop num_columns trs (rows @ [ensure_column_count num_columns (row_cells tr)])"

text \<open>Line 117: \<^verbatim>\<open>table.find_all('tr')[1:]\<close>, every row of the table but the first.\<close>

definition body_trs :: "node \<Rightarrow> node list" where
  "body_trs table = drop 1 (find_all ''tr'' table)"

definition table_rows :: "node \<Rightarrow> string list list" where
  "table_rows table = rows_loop (length (table_headers table)) (body_trs table) []"

subsection \<open>pandas frames\<close>

text \<open>
  A value in a frame: the missing value (\<^verbatim>\<open>NaN\<close>, \<^verbatim>\<open>None\<close>), a string, or a
  number. \<^verbatim>\<open>isna\<close> holds of the missing value only: the empty string is a string.
\<close>

datatype cell = NaN | Str string | Num rat

text \<open>A column label: a string, an integer (a table with no header), or a tuple of levels.\<close>

datatype label = LStr string | LInt int | LTuple "label list"

text \<open>\<^verbatim>\<open>df.columns\<close>: a flat index, or a \<^verbatim>\<open>MultiIndex\<close> of one level path per column.\<close>

datatype col_index = Index "label list" | MultiIndex "label list list"

text \<open>A frame: its columns, and its rows in order, each with its index label.\<close>

record dataframe =
  df_columns :: col_index
  df_rows :: "(nat \<times> cell list) list"

text \<open>
  \<^verbatim>\<open>pd.DataFrame(rows, columns=headers)\<close> for a list of rows of strings that all have
  \<^verbatim>\<open>len(headers)\<close> items, the only way line 129 calls it (\<open>length_ensure_column_count\<close>).
  The index is \<^verbatim>\<open>0..n-1\<close>.
\<close>

definition DataFrame :: "string list list \<Rightarrow> string list \<Rightarrow> dataframe" where
  "DataFrame data cols =
     \<lparr>df_columns = Index (map LStr cols),
      df_rows = zip [0..<length data] (map (map Str) data)\<rparr>"

text \<open>
  \<^verbatim>\<open>df.dropna(how='all')\<close>: a row stays when at least one of its values is not
  missing; it keeps its index label.
\<close>

definition dropna_all :: "dataframe \<Rightarrow> dataframe" where
  "dropna_all df = df\<lparr>df_rows := filter (\<lambda>(i, r). list_ex (\<lambda>c. c \<noteq> NaN) r) (df_rows df)\<rparr>"

text \<open>\<^verbatim>\<open>df.reset_index(drop=True)\<close>: the rows are labelled \<^verbatim>\<open>0..n-1\<close> anew.\<close>

definition reset_index :: "dataframe \<Rightarrow> dataframe" where
  "reset_index df = df\<lparr>df_rows := zip [0..<length (df_rows df)] (map snd (df_rows df))\<rparr>"

fun ncols :: "col_index \<Rightarrow> nat" where
  "ncols (Index ls) = length ls"
| "ncols (MultiIndex ps) = length ps"

text \<open>\<^verbatim>\<open>df.empty\<close>: one of the two axes has length 0.\<close>

definition df_empty :: "dataframe \<Rightarrow> bool" where
  "df_empty df = (df_rows df = [] \<or> ncols (df_columns df) = 0)"

text \<open>
  A Python \<^verbatim>\<open>dict\<close>: keys in the order of their first insertion, a later value for
  a key replacing the earlier one.
\<close>

fun dict_set :: "('k \<times> 'v) list \<Rightarrow> 'k \<Rightarrow> 'v \<Rightarrow> ('k \<times> 'v) list" where
  "dict_set [] k v = [(k, v)]"
| "dict_set ((k', v') # d) k v =
     (if k' = k then (k, v) # d else (k', v') # dict_set d k v)"

definition py_dict :: "('k \<times> 'v) list \<Rightarrow> ('k \<times> 'v) list" where
  "py_dict kvs = foldl (\<lambda>d (k, v). dict_set d k v) [] kvs"

fun column_keys :: "col_index \<Rightarrow> label list" where
  "column_keys (Index ls) = ls"
| "column_keys (MultiIndex ps) = map LTuple ps"

type_synonym py_record = "(label \<times> cell) list"

text \<open>\<^verbatim>\<open>df.to_dict('records')\<close>: one \<^verbatim>\<open>dict(zip(columns, row))\<close> per row.\<close>

definition to_dict_records :: "dataframe \<Rightarrow> py_record list" where
  "to_dict_records df =
     map (\<lambda>(i, r). py_dict (zip (column_keys (df_columns df)) r)) (df_rows df)"

subsection \<open>Exceptions, indexing, the environment\<close>

text \<open>An exception is kept as its text, \<^verbatim>\<open>str(e)\<close>; \<open>Inl\<close> is "raised".\<close>

type_synonym exn = string

type_synonym url = string

text \<open>\<^verbatim>\<open>xs[i]\<close> for a Python integer: a negative index counts from the end.\<close>

definition py_index :: "'a list \<Rightarrow> int \<Rightarrow> exn + 'a" where
  "py_index xs i =
     (if 0 \<le> i \<and> i < int (length xs) then Inr (xs ! nat i)
      else if i < 0 \<and> - int (length xs) \<le> i then Inr (xs ! nat (int (length xs) + i))
      else Inl ''IndexError'')"

text \<open>
  What the program asks of the outside: the page as pandas retrieves it itself when
  \<^verbatim>\<open>pd.read_html\<close> is given an address, the page as \<^verbatim>\<open>requests.get\<close> with the
  browser headers and the 10 second timeout retrieves it, and the frames
  \<^verbatim>\<open>pd.read_html\<close> makes of a page. Each may raise. A page is its parsed tree, the
  root tag holding the document.
\<close>

record env =
  pandas_get :: "url \<Rightarrow> exn + node"
  requests_get :: "url \<Rightarrow> exn + node"
  read_html :: "node \<Rightarrow> exn + dataframe list"

text \<open>What the extractors print.\<close>

datatype log_line =
    FoundTables nat url
  | TableIndexNotFound int url
  | ErrorProcessing url exn
  | HdfcFound nat
  | HdfcOutOfRange
  | HdfcError exn

subsection \<open>\<^verbatim>\<open>extract_table_from_html\<close> (lines 54 to 91)\<close>

text \<open>
  Lines 63 to 68: \<^verbatim>\<open>pd.read_html(url)\<close>, and on any exception
  \<^verbatim>\<open>requests.get\<close> followed by \<^verbatim>\<open>pd.read_html(response.text)\<close>.
\<close>

definition read_tables :: "env \<Rightarrow> url \<Rightarrow> exn + dataframe list" where
  "read_tables e u =
     (case (case pandas_get e u of Inl x \<Rightarrow> Inl x | Inr page \<Rightarrow> read_html e page) of
        Inr tables \<Rightarrow> Inr tables
      | Inl x \<Rightarrow>
          (case requests_get e u of Inl y \<Rightarrow> Inl y | Inr page \<Rightarrow> read_html e page))"

text \<open>
  \<^verbatim>\<open>' '.join(col)\<close> takes strings only: any other item raises \<^verbatim>\<open>TypeError\<close>.
\<close>

fun level_strings :: "label list \<Rightarrow> string list option" where
  "level_strings [] = Some []"
| "level_strings (LStr s # ls) = map_option ((#) s) (level_strings ls)"
| "level_strings (l # ls) = None"

text \<open>Line 77, one column: \<^verbatim>\<open>' '.join(col).strip()\<close>\<close>

definition flat_label :: "label list \<Rightarrow> string option" where
  "flat_label col = map_option (\<lambda>levels. strip (join_space levels)) (level_strings col)"

text \<open>
  Lines 76 and 77:
  \<^verbatim>\<open>
  if isinstance(df.columns, pd.MultiIndex):
      df.columns = [' '.join(col).strip() for col in df.columns.values]
  \<close>
\<close>

fun flatten_columns :: "col_index \<Rightarrow> exn + col_index" where
  "flatten_columns (Index ls) = Inr (Index ls)"
| "flatten_columns (MultiIndex cols) =
     (case those (map flat_label cols) of
        None \<Rightarrow> Inl ''TypeError''
      | Some ls \<Rightarrow> Inr (Index (map LStr ls)))"

text \<open>
  The function returns the frame or \<^verbatim>\<open>None\<close>; the first component is what it
  printed. Every exception raised inside is caught by line 87.
\<close>

definition extract_table_from_html :: "env \<Rightarrow> url \<Rightarrow> int \<Rightarrow> log_line list \<times> dataframe option" where
  "extract_table_from_html e u table_index =
     (case read_tables e u of
        Inl x \<Rightarrow> ([ErrorProcessing u x], None)
      | Inr tables \<Rightarrow>
          if int (length tables) > table_index then
            (case py_index tables table_index of
               Inl x \<Rightarrow> ([FoundTables (length tables) u, ErrorProcessing u x], None)
             | Inr df \<Rightarrow>
                 (case flatten_columns (df_columns df) of
                    Inl x \<Rightarrow> ([FoundTables (length tables) u, ErrorProcessing u x], None)
                  | Inr cols \<Rightarrow>
                      ([FoundTables (length tables) u],
                       Some (reset_index (dropna_all (df\<lparr>df_columns := cols\<rparr>))))))
          else ([FoundTables (length tables) u, TableIndexNotFound table_index u], None))"

subsection \<open>\<^verbatim>\<open>extract_hdfc_table\<close> (lines 93 to 139)\<close>

text \<open>Lines 109 to 133, for the selected table.\<close>

definition hdfc_frame :: "node \<Rightarrow> dataframe" where
  "hdfc_frame table =
     reset_index (dropna_all (DataFrame (table_rows table) (table_headers table)))"

definition extract_hdfc_table :: "env \<Rightarrow> url \<Rightarrow> int \<Rightarrow> log_line list \<times> dataframe option" where
  "extract_hdfc_table e u table_index =
     (case requests_get e u of
        Inl x \<Rightarrow> ([HdfcError x], None)
      | Inr soup \<Rightarrow>
          if table_index \<ge> int (length (find_all ''table'' soup)) then
            ([HdfcFound (length (find_all ''table'' soup)), HdfcOutOfRange], None)
          else
            (case py_index (find_all ''table'' soup) table_index of
               Inl x \<Rightarrow> ([HdfcFound (length (find_all ''table'' soup)), HdfcError x], None)
             | Inr table \<Rightarrow>
                 ([HdfcFound (length (find_all ''table'' soup))], Some (hdfc_frame table))))"

subsection \<open>The views \<^verbatim>\<open>fetch_bank_data\<close> and \<^verbatim>\<open>fetch_multiple_banks\<close>\<close>

record bank_config =
  cfg_url :: url
  cfg_table_index :: int
  cfg_special :: bool

text \<open>Lines 23 to 49.\<close>

definition BANK_CONFIG :: "string \<rightharpoonup> bank_config" where
  "BANK_CONFIG = map_of
     [(''NSB'', \<lparr>cfg_url = ''https://www.nsb.lk/rates-tarriffs/rupee-deposit-rates/'',
                 cfg_table_index = 1, cfg_special = False\<rparr>),
      (''RDB'', \<lparr>cfg_url = ''https://www.rdb.lk/interest-rates/'',
                 cfg_table_index = 2, cfg_special = False\<rparr>),
      (''SDB'', \<lparr>cfg_url = ''https://www.sdb.lk/en/rates?tableid=5'',
                 cfg_table_index = 1, cfg_special = False\<rparr>),
      (''SMIB'', \<lparr>cfg_url = ''https://www.smib.lk/en/normal-fd-rates'',
                  cfg_table_index = 0, cfg_special = False\<rparr>),
      (''HDFC'', \<lparr>cfg_url = ''https://www.hdfc.lk/rates-%26-tarfiffs'',
                  cfg_table_index = 1, cfg_special = True\<rparr>)]"

text \<open>
  The message of a response, one constructor per text of the source:
  "Bank ... not found", "Successfully fetched ... records",
  "No data found or table extraction failed", "Error fetching data: ...".
\<close>

datatype message =
    BankNotFound string
  | SuccessfullyFetched nat
  | NoDataFound
  | ErrorFetching exn

text \<open>The JSON object of a response; \<^verbatim>\<open>data\<close> is present on success only.\<close>

record json_body =
  js_bank :: string
  js_status :: string
  js_message :: message
  js_data :: "py_record list option"

text \<open>
  What the view returns: a response, or a pair of a response and a status code
  (lines 168 to 172 and 207 to 211).
\<close>

datatype view_result = Response json_body | ResponseWithCode json_body nat

type_synonym timestamp = string

record cache_entry =
  ce_data :: "py_record list"
  ce_timestamp :: timestamp

text \<open>Line 52: the global \<^verbatim>\<open>fetched_data\<close>.\<close>

type_synonym cache = "string \<rightharpoonup> cache_entry"

text \<open>Lines 178 to 181: the extractor of a bank; what it printed is not in the response.\<close>

definition extract_for :: "env \<Rightarrow> string \<Rightarrow> bank_config \<Rightarrow> dataframe option" where
  "extract_for e bank_name config =
     (if cfg_special config \<and> bank_name = ''HDFC''
      then snd (extract_hdfc_table e (cfg_url config) (cfg_table_index config))
      else snd (extract_table_from_html e (cfg_url config) (cfg_table_index config)))"

text \<open>
  Lines 165 to 211, with the clock reading \<open>now\<close> of line 190 and the cache passed in
  and out. Both extractors catch every exception themselves, and \<^verbatim>\<open>df.empty\<close>,
  \<^verbatim>\<open>to_dict\<close> and the dictionary store raise nothing, so the handler of line 206 has no
  exception to catch.
\<close>

definition fetch_bank_data :: "env \<Rightarrow> timestamp \<Rightarrow> cache \<Rightarrow> string \<Rightarrow> view_result \<times> cache" where
  "fetch_bank_data e now fetched_data bank_name =
     (case BANK_CONFIG bank_name of
        None \<Rightarrow>
          (ResponseWithCode
             \<lparr>js_bank = bank_name, js_status = ''error'',
              js_message = BankNotFound bank_name, js_data = None\<rparr> 404,
           fetched_data)
      | Some config \<Rightarrow>
          (case extract_for e bank_name config of
             None \<Rightarrow>
               (Response \<lparr>js_bank = bank_name, js_status = ''error'',
                          js_message = NoDataFound, js_data = None\<rparr>,
                fetched_data)
           | Some df \<Rightarrow>
               if \<not> df_empty df then
                 (Response \<lparr>js_bank = bank_name, js_status = ''success'',
                            js_message = SuccessfullyFetched (length (to_dict_records df)),
                            js_data = Some (to_dict_records df)\<rparr>,
                  fetched_data(bank_name \<mapsto>
                    \<lparr>ce_data = to_dict_records df, ce_timestamp = now\<rparr>))
               else
                 (Response \<lparr>js_bank = bank_name, js_status = ''error'',
                            js_message = NoDataFound, js_data = None\<rparr>,
                  fetched_data)))"




subsection \<open>Example pages\<close>

text \<open>
  A table with a header row of four \<^verbatim>\<open>th\<close> cells, a body row of two cells and a
  body row of six cells.
\<close>

definition example_table :: node where
  "example_table =
     Tag ''table''
       [Tag ''tr'' [Tag ''th'' [NavigableString ''Term''], Tag ''th'' [NavigableString ''Monthly''],
                    Tag ''th'' [NavigableString ''Annual''], Tag ''th'' [NavigableString ''Maturity'']],
        Tag ''tr'' [Tag ''td'' [NavigableString '' 1 year ''], Tag ''td'' [NavigableString ''7.5'']],
        Tag ''tr'' [Tag ''td'' [NavigableString ''a''], Tag ''td'' [NavigableString ''b''],
                    Tag ''td'' [NavigableString ''c''], Tag ''td'' [NavigableString ''d''],
                    Tag ''td'' [NavigableString ''e''], Tag ''td'' [NavigableString ''f'']]]"

text \<open>A table of one row with a single \<^verbatim>\<open>td\<close> cell and no header.\<close>

definition notice_table :: node where
  "notice_table = Tag ''table'' [Tag ''tr'' [Tag ''td'' [NavigableString ''Rates are per annum'']]]"





text \<open>An environment in which nothing can be retrieved.\<close>

definition down_env :: env where
  "down_env =
     \<lparr>pandas_get = (\<lambda>u. Inl ''URLError''),
      requests_get = (\<lambda>u. Inl ''ConnectTimeout''),
      read_html = (\<lambda>page. Inl ''ValueError: No tables found'')\<rparr>"

text \<open>The page of the HDFC address holds a notice and the table of rates.\<close>

definition hdfc_page :: node where
  "hdfc_page = Tag ''[document]'' [Tag ''html'' [Tag ''body'' [notice_table, example_table]]]"

definition hdfc_env :: env where
  "hdfc_env =
     \<lparr>pandas_get = (\<lambda>u. Inl ''HTTP Error 403: Forbidden''),
      requests_get = (\<lambda>u. Inr hdfc_page),
      read_html = (\<lambda>page. Inl ''ValueError: No tables found'')\<rparr>"

text \<open>A cache that holds an earlier result for two banks.\<close>

definition old_cache :: cache where
  "old_cache =
     [''NSB'' \<mapsto> \<lparr>ce_data = [[(LStr ''Rate'', Num 7)]], ce_timestamp = ''2025-01-01T09:00:00''\<rparr>,
      ''HDFC'' \<mapsto> \<lparr>ce_data = [[(LStr ''Term'', Str ''1 year'')]],
                    ce_timestamp = ''2025-01-01T09:00:05''\<rparr>]"

text \<open>
  A table with one header row and two body rows, the first of them blank: an empty
  cell and a cell holding a space.
\<close>

definition blank_row_table :: node where
  "blank_row_table =
     Tag ''table''
       [Tag ''tr'' [Tag ''th'' [NavigableString ''Term''], Tag ''th'' [NavigableString ''Rate'']],
        Tag ''tr'' [Tag ''td'' [], Tag ''td'' [NavigableString '' '']],
        Tag ''tr'' [Tag ''td'' [NavigableString ''1 year''], Tag ''td'' [NavigableString ''7.5'']]]"

definition blank_row_env :: env where
  "blank_row_env =
     \<lparr>pandas_get = (\<lambda>u. Inl ''HTTP Error 403: Forbidden''),
      requests_get =
        (\<lambda>u. Inr (Tag ''[document]'' [Tag ''html'' [Tag ''body'' [notice_table, blank_row_table]]])),
      read_html = (\<lambda>page. Inl ''ValueError: No tables found'')\<rparr>"

text \<open>A table with a header row and no body row: valid, and empty.\<close>

definition header_only_table :: node where
  "header_only_table =
     Tag ''table''
       [Tag ''tr'' [Tag ''th'' [NavigableString ''Term''], Tag ''th'' [NavigableString ''Rate'']]]"

definition empty_table_env :: env where
  "empty_table_env =
     \<lparr>pandas_get = (\<lambda>u. Inl ''HTTP Error 403: Forbidden''),
      requests_get =
        (\<lambda>u. Inr (Tag ''[document]'' [Tag ''html'' [Tag ''body'' [notice_table, header_only_table]]])),
      read_html = (\<lambda>page. Inl ''ValueError: No tables found'')\<rparr>"

text \<open>A page with a single table, so that position 1 is out of range.\<close>

definition one_table_env :: env where
  "one_table_env =
     \<lparr>pandas_get = (\<lambda>u. Inl ''HTTP Error 403: Forbidden''),
      requests_get = (\<lambda>u. Inr (Tag ''[document]'' [Tag ''html'' [Tag ''body'' [notice_table]]])),
      read_html = (\<lambda>page. Inl ''ValueError: No tables found'')\<rparr>"









section \<open>Properties\<close>

lemma rows_loop_map:
  "rows_loop n trs acc = acc @ map (\<lambda>tr. ensure_column_count n (row_cells tr)) trs"
  by (induction trs arbitrary: acc) simp_all

lemma length_ensure_column_count: "length (ensure_column_count n row) = n"
  by (simp add: ensure_column_count_def)

lemma table_rows_map:
  "table_rows table =
     map (\<lambda>tr. ensure_column_count (length (table_headers table)) (row_cells tr)) (body_trs table)"
  by (simp add: table_rows_def rows_loop_map)

lemma df_rows_hdfc_frame:
  "map snd (df_rows (hdfc_frame table)) =
     map snd (filter (\<lambda>(i, r). list_ex (\<lambda>c. c \<noteq> NaN) r)
       (zip [0..<length (table_rows table)] (map (map Str) (table_rows table))))"
  by (simp add: hdfc_frame_def reset_index_def dropna_all_def DataFrame_def)

lemma hdfc_frame_row_length:
  assumes "(j, r) \<in> set (df_rows (hdfc_frame table))"
  shows "length r = length (table_headers table)"
proof -
  from assms have "r \<in> set (map snd (df_rows (hdfc_frame table)))"
    by force
  then have "r \<in> set (map (map Str) (table_rows table))"
    unfolding df_rows_hdfc_frame by (auto dest: set_zip_rightD)
  then obtain row where "row \<in> set (table_rows table)" and r: "r = map Str row"
    by auto
  then show ?thesis
    by (auto simp: table_rows_map length_ensure_column_count)
qed

subsection \<open>C1: row width\<close>

text \<open>
  C1. For every body row of the table selected by the structural parser (row \<open>i\<close> of
  \<^verbatim>\<open>table.find_all('tr')[1:]\<close>), with \<open>H\<close> the number of headers: a row of fewer than
  \<open>H\<close> cells is emitted as its cells followed by empty strings up to length \<open>H\<close>; a row
  of more than \<open>H\<close> cells is emitted as its first \<open>H\<close> cells; every emitted row, in the
  list \<^verbatim>\<open>rows\<close> and in the frame returned, has length exactly \<open>H\<close>.
\<close>

theorem C1_row_width:
  assumes "i < length (body_trs table)"
  shows "length (table_rows table) = length (body_trs table) \<and>
         length (table_rows table ! i) = length (table_headers table) \<and>
         (length (row_cells (body_trs table ! i)) < length (table_headers table) \<longrightarrow>
            table_rows table ! i =
              row_cells (body_trs table ! i) @
              replicate (length (table_headers table) - length (row_cells (body_trs table ! i))) []) \<and>
         (length (row_cells (body_trs table ! i)) > length (table_headers table) \<longrightarrow>
            table_rows table ! i = take (length (table_headers table)) (row_cells (body_trs table ! i))) \<and>
         list_all (\<lambda>(j, r). length r = length (table_headers table)) (df_rows (hdfc_frame table))"
proof -
  have "list_all (\<lambda>(j, r). length r = length (table_headers table)) (df_rows (hdfc_frame table))"
    unfolding list_all_iff using hdfc_frame_row_length by auto
  with assms show ?thesis
    by (simp add: table_rows_map ensure_column_count_def)
qed

text \<open>
  The two scenarios of the specification: against four headers, the row of two cells
  ends in two empty strings and the row of six cells keeps its first four.
\<close>

theorem C1_row_width_witness:
  "0 < length (body_trs example_table) \<and> Suc 0 < length (body_trs example_table) \<and>
   length (table_headers example_table) = 4 \<and>
   length (row_cells (body_trs example_table ! 0)) = 2 \<and>
   table_rows example_table ! 0 = [''1 year'', ''7.5'', [], []] \<and>
   length (row_cells (body_trs example_table ! Suc 0)) = 6 \<and>
   table_rows example_table ! Suc 0 = [''a'', ''b'', ''c'', ''d'']"
proof -
  have b: "body_trs example_table =
     [Tag ''tr'' [Tag ''td'' [NavigableString '' 1 year ''], Tag ''td'' [NavigableString ''7.5'']],
      Tag ''tr'' [Tag ''td'' [NavigableString ''a''], Tag ''td'' [NavigableString ''b''],
                  Tag ''td'' [NavigableString ''c''], Tag ''td'' [NavigableString ''d''],
                  Tag ''td'' [NavigableString ''e''], Tag ''td'' [NavigableString ''f'']]]"
    by code_simp
  have h: "length (table_headers example_table) = 4"
    by code_simp
  have c0: "row_cells (body_trs example_table ! 0) = [''1 year'', ''7.5'']"
    unfolding b by code_simp
  have c1: "row_cells (body_trs example_table ! Suc 0) = [''a'', ''b'', ''c'', ''d'', ''e'', ''f'']"
    unfolding b by code_simp
  have l: "0 < length (body_trs example_table)" "Suc 0 < length (body_trs example_table)"
    by (simp_all add: b)
  from l C1_row_width [OF l(1)] C1_row_width [OF l(2)] show ?thesis
    by (simp add: h c0 c1 eval_nat_numeral)
qed

subsection \<open>C2: a table position out of range\<close>



lemma tables_hdfc_page: "find_all ''table'' hdfc_page = [notice_table, example_table]"
  by code_simp







lemma df_columns_reset_dropna [simp]:
  "df_columns (reset_index (dropna_all df)) = df_columns df"
  by (simp add: reset_index_def dropna_all_def)


subsection \<open>C4: composite headers\<close>





lemma ensure_column_count_idem:
  "ensure_column_count n (ensure_column_count n row) = ensure_column_count n row"
  by (simp add: ensure_column_count_def)

lemma filter_zip_snd_all:
  assumes "\<forall>r \<in> set rs. P r"
  shows "filter (\<lambda>(i, r). P r) (zip js rs) = zip js rs"
proof -
  have "\<forall>x \<in> set (zip js rs). (\<lambda>(i, r). P r) x"
    using assms by (auto dest: set_zip_rightD)
  then show ?thesis
    by (simp only: filter_True)
qed

lemma dropna_all_reset_dropna:
  "dropna_all (reset_index (dropna_all df)) = reset_index (dropna_all df)"
proof -
  have "\<forall>r \<in> set (map snd (filter (\<lambda>(i, r). list_ex (\<lambda>c. c \<noteq> NaN) r) (df_rows df))).
          list_ex (\<lambda>c. c \<noteq> NaN) r"
    by auto
  then show ?thesis
    by (simp add: dropna_all_def reset_index_def filter_zip_snd_all)
qed

lemma reset_index_idem: "reset_index (reset_index df) = reset_index df"
  by (simp add: reset_index_def)

lemma normalize_idem:
  "reset_index (dropna_all (reset_index (dropna_all df))) = reset_index (dropna_all df)"
  by (simp only: dropna_all_reset_dropna reset_index_idem)

subsection \<open>C8: normalising twice\<close>

text \<open>
  C8. The normalisation steps are idempotent: padding or truncating a row to \<open>n\<close> cells
  a second time changes nothing; dropping the rows that are missing throughout and
  renumbering, applied to a frame that went through both already, gives the same frame
  and so the same records; and the frame built from rows that are already reconciled
  against the headers is the frame built from the rows themselves.
\<close>

theorem C8_idempotent:
  "ensure_column_count n (ensure_column_count n row) = ensure_column_count n row \<and>
   reset_index (dropna_all (reset_index (dropna_all df))) = reset_index (dropna_all df) \<and>
   to_dict_records (reset_index (dropna_all (reset_index (dropna_all df)))) =
     to_dict_records (reset_index (dropna_all df)) \<and>
   reset_index (dropna_all (DataFrame
       (map (ensure_column_count (length headers))
          (map (ensure_column_count (length headers)) rows)) headers)) =
     reset_index (dropna_all (DataFrame (map (ensure_column_count (length headers)) rows) headers))"
  by (simp add: ensure_column_count_idem normalize_idem o_def)

lemma fetch_bank_data_cases:
  "fetch_bank_data e now fd b =
     (case BANK_CONFIG b of
        None \<Rightarrow> (ResponseWithCode \<lparr>js_bank = b, js_status = ''error'',
                    js_message = BankNotFound b, js_data = None\<rparr> 404, fd)
      | Some config \<Rightarrow>
          (case extract_for e b config of
             None \<Rightarrow> (Response \<lparr>js_bank = b, js_status = ''error'',
                         js_message = NoDataFound, js_data = None\<rparr>, fd)
           | Some df \<Rightarrow>
               if df_empty df then
                 (Response \<lparr>js_bank = b, js_status = ''error'',
                            js_message = NoDataFound, js_data = None\<rparr>, fd)
               else
                 (Response \<lparr>js_bank = b, js_status = ''success'',
                            js_message = SuccessfullyFetched (length (to_dict_records df)),
                            js_data = Some (to_dict_records df)\<rparr>,
                  fd(b \<mapsto> \<lparr>ce_data = to_dict_records df, ce_timestamp = now\<rparr>))))"
  by (simp add: fetch_bank_data_def split: option.splits)

lemma to_dict_records_Nil: "to_dict_records df = [] \<longleftrightarrow> df_rows df = []"
  by (simp add: to_dict_records_def)

subsection \<open>C10: the cache\<close>

text \<open>
  C10. \<^verbatim>\<open>fetch_bank_data\<close> leaves \<^verbatim>\<open>fetched_data\<close> as it was when the bank is
  unknown, when the extractor returned \<^verbatim>\<open>None\<close>, and when the frame has no records;
  on a frame that is not empty it stores the records and the clock reading under the
  bank's name. The entry of every other bank is the same before and after. Whenever the
  cache changed, the response is a success with at least one record.
\<close>

theorem C10_cache_frame:
  "(BANK_CONFIG b = None \<longrightarrow> snd (fetch_bank_data e now fd b) = fd) \<and>
   (\<forall>config. BANK_CONFIG b = Some config \<and> extract_for e b config = None \<longrightarrow>
      snd (fetch_bank_data e now fd b) = fd) \<and>
   (\<forall>config df. BANK_CONFIG b = Some config \<and> extract_for e b config = Some df \<and>
      to_dict_records df = [] \<longrightarrow> snd (fetch_bank_data e now fd b) = fd) \<and>
   (\<forall>config df. BANK_CONFIG b = Some config \<and> extract_for e b config = Some df \<and>
      \<not> df_empty df \<longrightarrow>
      snd (fetch_bank_data e now fd b) =
        fd(b \<mapsto> \<lparr>ce_data = to_dict_records df, ce_timestamp = now\<rparr>)) \<and>
   (\<forall>b'. b' \<noteq> b \<longrightarrow> snd (fetch_bank_data e now fd b) b' = fd b') \<and>
   (snd (fetch_bank_data e now fd b) \<noteq> fd \<longrightarrow>
      (\<exists>body records. fst (fetch_bank_data e now fd b) = Response body \<and>
         js_status body = ''success'' \<and> js_data body = Some records \<and> records \<noteq> []))"
  by (auto simp: fetch_bank_data_cases to_dict_records_Nil df_empty_def split: option.splits)

lemma BANK_CONFIG_HDFC:
  "BANK_CONFIG ''HDFC'' =
     Some \<lparr>cfg_url = ''https://www.hdfc.lk/rates-%26-tarfiffs'', cfg_table_index = 1,
           cfg_special = True\<rparr>"
  by (simp add: BANK_CONFIG_def)

lemma extract_for_down_env:
  "extract_for down_env ''HDFC''
     \<lparr>cfg_url = ''https://www.hdfc.lk/rates-%26-tarfiffs'', cfg_table_index = 1,
      cfg_special = True\<rparr> = None"
  by (simp add: extract_for_def extract_hdfc_table_def down_env_def)

lemma hdfc_frame_example_table:
  "hdfc_frame example_table =
     \<lparr>df_columns = Index [LStr ''Term'', LStr ''Monthly'', LStr ''Annual'', LStr ''Maturity''],
      df_rows = [(0, [Str ''1 year'', Str ''7.5'', Str [], Str []]),
                 (1, [Str ''a'', Str ''b'', Str ''c'', Str ''d''])]\<rparr>"
  by code_simp

text \<open>
  With the site down the cache, earlier HDFC entry included, is unchanged; with the
  site up the HDFC entry changes and the NSB entry does not.
\<close>

theorem C10_cache_frame_witness:
  "BANK_CONFIG ''HDFC'' =
     Some \<lparr>cfg_url = ''https://www.hdfc.lk/rates-%26-tarfiffs'', cfg_table_index = 1,
           cfg_special = True\<rparr> \<and>
   extract_for down_env ''HDFC''
     \<lparr>cfg_url = ''https://www.hdfc.lk/rates-%26-tarfiffs'', cfg_table_index = 1,
      cfg_special = True\<rparr> = None \<and>
   snd (fetch_bank_data down_env ''2026-01-01T09:00:00'' old_cache ''HDFC'') = old_cache \<and>
   ''NSB'' \<noteq> ''HDFC'' \<and>
   snd (fetch_bank_data hdfc_env ''2026-01-01T09:00:00'' old_cache ''HDFC'') ''NSB'' =
     old_cache ''NSB'' \<and>
   snd (fetch_bank_data hdfc_env ''2026-01-01T09:00:00'' old_cache ''HDFC'') \<noteq> old_cache"
proof -
  have n: "snd (fetch_bank_data hdfc_env ''2026-01-01T09:00:00'' old_cache ''HDFC'') ''HDFC''
             \<noteq> old_cache ''HDFC''"
    by (simp add: fetch_bank_data_cases BANK_CONFIG_HDFC extract_for_def extract_hdfc_table_def
        hdfc_env_def tables_hdfc_page py_index_def df_empty_def hdfc_frame_example_table
        old_cache_def)
  then have "snd (fetch_bank_data hdfc_env ''2026-01-01T09:00:00'' old_cache ''HDFC'') \<noteq> old_cache"
    by metis
  with C10_cache_frame [of "''HDFC''" down_env "''2026-01-01T09:00:00''" old_cache]
       C10_cache_frame [of "''HDFC''" hdfc_env "''2026-01-01T09:00:00''" old_cache]
  show ?thesis
    by (simp add: BANK_CONFIG_HDFC extract_for_down_env)
qed

subsection \<open>C3: rows that are empty throughout\<close>

text \<open>
  C3. Line 130 of \<^verbatim>\<open>extract_hdfc_table\<close>, under the comment "Remove completely empty
  rows", calls \<^verbatim>\<open>dropna(how='all')\<close> on a frame whose values are the strings of the
  cells. An empty string is not a missing value, so a body row whose cells are all blank
  stays: of the two data rows of \<open>blank_row_table\<close>, one of them blank, both are in the
  result, where the claim has one.
\<close>

theorem C3_blank_row_kept:
  "extract_hdfc_table blank_row_env ''https://www.hdfc.lk/rates-%26-tarfiffs'' 1 =
     ([HdfcFound 2],
      Some \<lparr>df_columns = Index [LStr ''Term'', LStr ''Rate''],
            df_rows = [(0, [Str [], Str []]), (1, [Str ''1 year'', Str ''7.5''])]\<rparr>) \<and>
   map row_cells (body_trs blank_row_table) = [[[], []], [''1 year'', ''7.5'']] \<and>
   length (to_dict_records (hdfc_frame blank_row_table)) = 2"
  by code_simp

lemma map_snd_filter_snd:
  "map snd (filter (\<lambda>(i, r). P r) xs) = filter P (map snd xs)"
  by (induction xs) auto

lemma not_list_ex_notna: "(\<not> list_ex (\<lambda>c. c \<noteq> NaN) r) = list_all (\<lambda>c. c = NaN) r"
  by (simp add: list_ex_iff list_all_iff)

text \<open>
  What lines 80, 81 and 130, 131 do on any frame: the rows with at least one value that
  is not missing are kept in their order and numbered from 0; with \<open>N\<close> rows of which
  \<open>K\<close> are missing throughout, \<open>N - K\<close> records result. In the frames pandas reads from
  a page a blank cell is the missing value.
\<close>

theorem dropna_all_drops_missing_rows:
  "map snd (df_rows (reset_index (dropna_all df))) =
     filter (list_ex (\<lambda>c. c \<noteq> NaN)) (map snd (df_rows df)) \<and>
   map fst (df_rows (reset_index (dropna_all df))) =
     [0..<length (filter (list_ex (\<lambda>c. c \<noteq> NaN)) (map snd (df_rows df)))] \<and>
   length (to_dict_records (reset_index (dropna_all df))) =
     length (df_rows df) - length (filter (list_all (\<lambda>c. c = NaN)) (map snd (df_rows df)))"
proof -
  let ?P = "list_ex (\<lambda>c. c \<noteq> NaN)"
  let ?rs = "map snd (df_rows df)"
  have k: "map snd (filter (\<lambda>(i, r). ?P r) (df_rows df)) = filter ?P ?rs"
    by (rule map_snd_filter_snd)
  have l: "length (filter (\<lambda>(i, r). ?P r) (df_rows df)) = length (filter ?P ?rs)"
    using k by (metis length_map)
  have "length (filter ?P ?rs) + length (filter (\<lambda>r. \<not> ?P r) ?rs) = length ?rs"
    by (rule sum_length_filter_compl)
  then have c: "length (filter ?P ?rs) =
      length (df_rows df) - length (filter (list_all (\<lambda>c. c = NaN)) ?rs)"
    by (simp add: not_list_ex_notna)
  show ?thesis
    using c by (simp add: reset_index_def dropna_all_def to_dict_records_def k l)
qed











subsection \<open>C6: headers, body rows and cell texts of the structural parser\<close>




lemma extract_for_None_or_empty:
  assumes "BANK_CONFIG b = Some config"
    and "extract_for e b config = None \<or> (\<exists>df. extract_for e b config = Some df \<and> df_empty df)"
  shows "fetch_bank_data e now fd b =
           (Response \<lparr>js_bank = b, js_status = ''error'', js_message = NoDataFound,
                      js_data = None\<rparr>, fd)"
  using assms by (auto simp: fetch_bank_data_cases)

subsection \<open>C5: how failures reach the caller\<close>

text \<open>
  C5, as the code has it. A failure to retrieve or parse the page and a table position
  out of range each make the extractor return \<^verbatim>\<open>None\<close>, never a frame. To
  \<^verbatim>\<open>None\<close>, and equally to a frame that is empty, \<^verbatim>\<open>fetch_bank_data\<close> answers with
  status "error" and the message "No data found or table extraction failed", and leaves
  the cache as it was. A response with status "success" is given for a frame that is
  not empty only, and carries its records.
\<close>

theorem C5_errors_reported:
  "(\<forall>x. read_tables e u = Inl x \<longrightarrow> snd (extract_table_from_html e u i) = None) \<and>
   (\<forall>tables. read_tables e u = Inr tables \<and> int (length tables) \<le> i \<longrightarrow>
      snd (extract_table_from_html e u i) = None) \<and>
   (\<forall>x. requests_get e u = Inl x \<longrightarrow> snd (extract_hdfc_table e u i) = None) \<and>
   (\<forall>soup. requests_get e u = Inr soup \<and> int (length (find_all ''table'' soup)) \<le> i \<longrightarrow>
      snd (extract_hdfc_table e u i) = None) \<and>
   (\<forall>config. BANK_CONFIG b = Some config \<and>
      (extract_for e b config = None \<or> (\<exists>df. extract_for e b config = Some df \<and> df_empty df)) \<longrightarrow>
      fetch_bank_data e now fd b =
        (Response \<lparr>js_bank = b, js_status = ''error'', js_message = NoDataFound,
                   js_data = None\<rparr>, fd)) \<and>
   (\<forall>body. fst (fetch_bank_data e now fd b) = Response body \<and> js_status body = ''success'' \<longrightarrow>
      (\<exists>config df. BANK_CONFIG b = Some config \<and> extract_for e b config = Some df \<and>
         \<not> df_empty df \<and> js_data body = Some (to_dict_records df)))"
proof -
  have "\<forall>body. fst (fetch_bank_data e now fd b) = Response body \<and> js_status body = ''success'' \<longrightarrow>
      (\<exists>config df. BANK_CONFIG b = Some config \<and> extract_for e b config = Some df \<and>
         \<not> df_empty df \<and> js_data body = Some (to_dict_records df))"
    by (auto simp: fetch_bank_data_cases split: option.splits if_splits)
  then show ?thesis
    using extract_for_None_or_empty [of b _ e now fd]
    by (simp add: extract_table_from_html_def extract_hdfc_table_def)
qed

lemma hdfc_frame_header_only:
  "hdfc_frame header_only_table =
     \<lparr>df_columns = Index [LStr ''Term'', LStr ''Rate''], df_rows = []\<rparr>"
  by code_simp

text \<open>
  C5 as stated fails: a valid table with no body row, a site that cannot be reached and
  a table position out of range all get the same response, so the caller cannot tell the
  empty table from the errors, nor the errors from each other.
\<close>

theorem C5_empty_table_counterexample:
  "extract_hdfc_table empty_table_env ''https://www.hdfc.lk/rates-%26-tarfiffs'' 1 =
     ([HdfcFound 2], Some \<lparr>df_columns = Index [LStr ''Term'', LStr ''Rate''], df_rows = []\<rparr>) \<and>
   extract_hdfc_table down_env ''https://www.hdfc.lk/rates-%26-tarfiffs'' 1 =
     ([HdfcError ''ConnectTimeout''], None) \<and>
   extract_hdfc_table one_table_env ''https://www.hdfc.lk/rates-%26-tarfiffs'' 1 =
     ([HdfcFound 1, HdfcOutOfRange], None) \<and>
   fetch_bank_data empty_table_env ''2026-01-01T09:00:00'' old_cache ''HDFC'' =
     (Response \<lparr>js_bank = ''HDFC'', js_status = ''error'', js_message = NoDataFound,
                js_data = None\<rparr>, old_cache) \<and>
   fetch_bank_data down_env ''2026-01-01T09:00:00'' old_cache ''HDFC'' =
     fetch_bank_data empty_table_env ''2026-01-01T09:00:00'' old_cache ''HDFC'' \<and>
   fetch_bank_data one_table_env ''2026-01-01T09:00:00'' old_cache ''HDFC'' =
     fetch_bank_data empty_table_env ''2026-01-01T09:00:00'' old_cache ''HDFC''"
proof -
  have a: "extract_hdfc_table empty_table_env ''https://www.hdfc.lk/rates-%26-tarfiffs'' 1 =
     ([HdfcFound 2], Some \<lparr>df_columns = Index [LStr ''Term'', LStr ''Rate''], df_rows = []\<rparr>)"
    by code_simp
  have b: "extract_hdfc_table down_env ''https://www.hdfc.lk/rates-%26-tarfiffs'' 1 =
     ([HdfcError ''ConnectTimeout''], None)"
    by (simp add: extract_hdfc_table_def down_env_def)
  have c: "extract_hdfc_table one_table_env ''https://www.hdfc.lk/rates-%26-tarfiffs'' 1 =
     ([HdfcFound 1, HdfcOutOfRange], None)"
    by code_simp
  show ?thesis
    by (simp add: a b c fetch_bank_data_cases BANK_CONFIG_HDFC extract_for_def df_empty_def)
qed

text \<open>A site that cannot be reached.\<close>

theorem C5_errors_reported_witness:
  "read_tables down_env ''https://www.rdb.lk/interest-rates/'' = Inl ''ConnectTimeout'' \<and>
   snd (extract_table_from_html down_env ''https://www.rdb.lk/interest-rates/'' 2) = None \<and>
   requests_get down_env ''https://www.rdb.lk/interest-rates/'' = Inl ''ConnectTimeout'' \<and>
   snd (extract_hdfc_table down_env ''https://www.rdb.lk/interest-rates/'' 2) = None \<and>
   BANK_CONFIG ''HDFC'' =
     Some \<lparr>cfg_url = ''https://www.hdfc.lk/rates-%26-tarfiffs'', cfg_table_index = 1,
           cfg_special = True\<rparr> \<and>
   extract_for down_env ''HDFC''
     \<lparr>cfg_url = ''https://www.hdfc.lk/rates-%26-tarfiffs'', cfg_table_index = 1,
      cfg_special = True\<rparr> = None \<and>
   fetch_bank_data down_env ''2026-01-01T09:00:00'' old_cache ''HDFC'' =
     (Response \<lparr>js_bank = ''HDFC'', js_status = ''error'', js_message = NoDataFound,
                js_data = None\<rparr>, old_cache)"
proof -
  have d: "read_tables down_env ''https://www.rdb.lk/interest-rates/'' = Inl ''ConnectTimeout''"
    by (simp add: read_tables_def down_env_def)
  have r: "requests_get down_env ''https://www.rdb.lk/interest-rates/'' = Inl ''ConnectTimeout''"
    by (simp add: down_env_def)
  from C5_errors_reported [of down_env "''https://www.rdb.lk/interest-rates/''" 2 "''HDFC''"
      "''2026-01-01T09:00:00''" old_cache]
  show ?thesis
    by (simp add: d r BANK_CONFIG_HDFC extract_for_down_env)
qed


subsection \<open>C9: the two extractors on the same page\<close>











subsection \<open>C7: a batch of banks\<close>






end
